theory Spec2Isabelle
  imports Main
begin

section \<open>Chunk stores of katdal: data model\<close>

text \<open>
  The standardised failure kinds of the chunk store interface, next to the native
  exceptions of the libraries the two backends call (\<open>os\<close>, \<open>numpy\<close>, \<open>rados\<close>).
  The tests catch \<open>MalformedRequest\<close> as a \<open>ValueError\<close> raised by the metadata
  validation of the base class.
\<close>

datatype exc = IOError | OSError | ImportError | TypeError
  | TimedOut | ObjectNotFound | OtherException

datatype error = MalformedRequest | ChunkNotFound | StoreUnavailable | Native exc

text \<open>
  A Python \<open>slice\<close> object: each of start, stop and step is an integer or \<open>None\<close>.
  A chunk is addressed by a sequence of them; the tests also pass a bare index, a bare
  slice and a list of integers, which the validation has to refuse.
\<close>

datatype pyslice = PySlice (start: "int option") (stop: "int option") (step: "int option")

datatype index = Scalar int | Range pyslice

datatype slices = Bare index | Seq "index list"

text \<open>
  A NumPy dtype, reduced to what the stores look at: its kind (object dtypes hold
  references instead of values) and its item size in bytes. An array is its shape, its
  dtype and its elements as the raw bytes in C order (\<open>tobytes\<close>).
\<close>

datatype dtype_kind = BoolKind | IntKind | UIntKind | FloatKind | ComplexKind | ObjectKind

datatype dtype = DType (kind: dtype_kind) (itemsize: nat)

record ndarray =
  shape :: "int list"
  dtype :: dtype
  data :: string

definition hasobject :: "dtype \<Rightarrow> bool" where
  "hasobject d = (kind d = ObjectKind)"

definition np_prod :: "int list \<Rightarrow> int" where
  "np_prod xs = prod_list xs"

definition wf_array :: "ndarray \<Rightarrow> bool" where
  "wf_array a = (list_all (\<lambda>d. 0 \<le> d) (shape a)
     \<and> int (length (data a)) = np_prod (shape a) * int (itemsize (dtype a)))"

section \<open>Key and metadata derivation of the base class\<close>

text \<open>
  The base class \<open>ChunkStore\<close> lives in \<open>katdal/chunkstore.py\<close>, which is not among
  the sources; the two stores call its \<open>join\<close>, \<open>chunk_name\<close>, \<open>chunk_metadata\<close>
  and \<open>_standard_errors\<close>, and the tests fix what its validation refuses.
\<close>

text \<open>
  Modelled from the spec: the start offsets in the index string of a chunk key, which
  \<open>katdal/chunkstore.py\<close> (missing from the sources) writes. Each offset is padded
  with zeros to a fixed width; the class docstrings under the sources give the index
  \<open>00001_00512\<close>, so the width is five, as of Python's \<open>"{:05d}".format(n)\<close>: the
  decimal digits of \<open>n\<close>, padded with zeros to five characters, the sign included in
  the width; longer numbers are not cut.
\<close>

definition digit_char :: "nat \<Rightarrow> char" where
  "digit_char d = char_of (48 + d)"

fun digits :: "nat \<Rightarrow> string" where
  "digits n = (if n < 10 then [digit_char n] else digits (n div 10) @ [digit_char (n mod 10)])"

declare digits.simps [simp del]

definition zfill :: "nat \<Rightarrow> string \<Rightarrow> string" where
  "zfill w s = replicate (w - length s) (CHR ''0'') @ s"

definition format_05d :: "int \<Rightarrow> string" where
  "format_05d n = (if n < 0 then CHR ''-'' # zfill 4 (digits (nat (- n)))
                   else zfill 5 (digits (nat n)))"

text \<open>Python's \<open>sep.join(parts)\<close>.\<close>

fun str_join :: "string \<Rightarrow> string list \<Rightarrow> string" where
  "str_join sep [] = []"
| "str_join sep [x] = x"
| "str_join sep (x # y # ys) = x @ sep @ str_join sep (y # ys)"

text \<open>
  Modelled from the spec: \<open>ChunkStore.join\<close> of \<open>katdal/chunkstore.py\<close>, which is
  missing from the sources. It concatenates name segments with the fixed separator
  \<open>/\<close>.
\<close>

definition join :: "string list \<Rightarrow> string" where
  "join names = str_join ''/'' names"

definition proper_range :: "index \<Rightarrow> bool" where
  "proper_range i = (case i of Scalar _ \<Rightarrow> False
     | Range s \<Rightarrow> start s \<noteq> None \<and> stop s \<noteq> None)"

definition unit_stride :: "index \<Rightarrow> bool" where
  "unit_stride i = (case i of Scalar _ \<Rightarrow> False
     | Range s \<Rightarrow> step s = None \<or> step s = Some 1)"

definition start_of :: "index \<Rightarrow> int" where
  "start_of i = (case i of Scalar n \<Rightarrow> n | Range s \<Rightarrow> (case start s of Some a \<Rightarrow> a | None \<Rightarrow> 0))"

definition stop_of :: "index \<Rightarrow> int" where
  "stop_of i = (case i of Scalar n \<Rightarrow> n | Range s \<Rightarrow> (case stop s of Some a \<Rightarrow> a | None \<Rightarrow> 0))"

definition chunk_shape :: "index list \<Rightarrow> int list" where
  "chunk_shape xs = map (\<lambda>i. stop_of i - start_of i) xs"

definition idxstr :: "index list \<Rightarrow> string" where
  "idxstr xs = str_join ''_'' (map (\<lambda>i. format_05d (start_of i)) xs)"

text \<open>
  Modelled from the spec: \<open>ChunkStore.chunk_name\<close> of \<open>katdal/chunkstore.py\<close>,
  which is missing from the sources (the spec's key derivation). The slice
  specification has to be a non-empty sequence of range descriptors, a bare index or
  an element that is no range descriptor is refused, and so is a step other than 1
  (a slice without step has unit stride: the store tests address chunks by
  \<open>slice(3, 5)\<close>). The key is the array name, \<open>/\<close>, and the start offsets, each
  padded to five digits as in the index \<open>00001_00512\<close> of the class docstrings,
  joined by \<open>_\<close>. No state is read or written.
\<close>

definition chunk_name :: "string \<Rightarrow> slices \<Rightarrow> error + string" where
  "chunk_name array_name sl = (case sl of
       Bare _ \<Rightarrow> Inl MalformedRequest
     | Seq xs \<Rightarrow>
         if xs = [] \<or> \<not> list_all proper_range xs then Inl MalformedRequest
         else if \<not> list_all unit_stride xs then Inl MalformedRequest
         else Inr (join [array_name, idxstr xs]))"

text \<open>
  Modelled from the spec: \<open>ChunkStore.chunk_metadata\<close> of \<open>katdal/chunkstore.py\<close>,
  which is missing from the sources (the spec's metadata derivation). It derives the
  key as above and the shape as stop minus start per dimension. A payload has to have
  exactly that shape and a dtype without object references, and a dtype given as well
  has to be the payload's; a dtype given alone must not hold object references. The
  callers unpack the result as key and shape.
\<close>

definition chunk_metadata ::
  "string \<Rightarrow> slices \<Rightarrow> ndarray option \<Rightarrow> dtype option \<Rightarrow> error + (string \<times> int list)" where
  "chunk_metadata array_name sl chunk dt = (case chunk_name array_name sl of
       Inl e \<Rightarrow> Inl e
     | Inr key \<Rightarrow>
        (case sl of
           Bare _ \<Rightarrow> Inl MalformedRequest
         | Seq xs \<Rightarrow>
            (let shp = chunk_shape xs in
             case chunk of
               Some c \<Rightarrow>
                 if shape c \<noteq> shp then Inl MalformedRequest
                 else if hasobject (dtype c) then Inl MalformedRequest
                 else if dt \<noteq> None \<and> dt \<noteq> Some (dtype c) then Inl MalformedRequest
                 else Inr (key, shp)
             | None \<Rightarrow>
                (case dt of
                   Some d \<Rightarrow> if hasobject d then Inl MalformedRequest else Inr (key, shp)
                 | None \<Rightarrow> Inr (key, shp)))))"

text \<open>
  Modelled from the spec: \<open>ChunkStore._standard_errors\<close> of
  \<open>katdal/chunkstore.py\<close>, which is missing from the sources. It runs a backend call;
  a native failure that is a key of the store's error map is raised again as the
  standard kind the map gives, any other failure passes unchanged, and a normal
  result is returned as it is.
\<close>

definition standard_errors :: "(exc \<rightharpoonup> error) \<Rightarrow> exc + 'a \<Rightarrow> error + 'a" where
  "standard_errors error_map r = (case r of
       Inr v \<Rightarrow> Inr v
     | Inl e \<Rightarrow> (case error_map e of Some k \<Rightarrow> Inl k | None \<Rightarrow> Inl (Native e)))"

section \<open>Paths and the file system\<close>

text \<open>\<open>os.path.join\<close> of two components and \<open>os.path.split\<close>, as in \<open>posixpath\<close>.\<close>

definition os_path_join :: "string \<Rightarrow> string \<Rightarrow> string" where
  "os_path_join a b =
     (if b \<noteq> [] \<and> hd b = CHR ''/'' then b
      else if a = [] \<or> last a = CHR ''/'' then a @ b
      else a @ ''/'' @ b)"

definition rstrip_slash :: "string \<Rightarrow> string" where
  "rstrip_slash s = rev (dropWhile (\<lambda>c. c = CHR ''/'') (rev s))"

definition os_path_split :: "string \<Rightarrow> string \<times> string" where
  "os_path_split p =
     (let tail = rev (takeWhile (\<lambda>c. c \<noteq> CHR ''/'') (rev p));
          head = take (length p - length tail) p
      in (if head \<noteq> [] \<and> \<not> list_all (\<lambda>c. c = CHR ''/'') head then rstrip_slash head else head,
          tail))"

text \<open>
  The directories that have to exist for a path to exist: the path and the heads that
  \<open>os.path.split\<close> strips off it in turn, as \<open>os.makedirs\<close> walks them.
\<close>

function ancestors :: "string \<Rightarrow> string list" where
  "ancestors p = (let h = fst (os_path_split p) in
      if h = [] \<or> length p \<le> length h then [p] else p # ancestors h)"
  by pat_completeness auto
termination
  by (relation "measure length") auto

declare ancestors.simps [simp del]

datatype fs_event = Isdir string | Makedirs string | Save string | Load string

record filesystem =
  dirs :: "string set"
  files :: "string \<rightharpoonup> ndarray"
  fs_log :: "fs_event list"

definition os_path_isdir :: "string \<Rightarrow> filesystem \<Rightarrow> bool \<times> filesystem" where
  "os_path_isdir p fs = (p \<in> dirs fs, fs\<lparr>fs_log := fs_log fs @ [Isdir p]\<rparr>)"

text \<open>
  \<open>os.makedirs\<close> creates the leaf directory and every missing directory above it; it
  fails when the leaf exists already or a regular file is in the way.
\<close>

definition os_makedirs :: "string \<Rightarrow> filesystem \<Rightarrow> (exc + unit) \<times> filesystem" where
  "os_makedirs p fs =
     (let fs1 = fs\<lparr>fs_log := fs_log fs @ [Makedirs p]\<rparr> in
      if p \<in> dirs fs \<or> list_ex (\<lambda>q. files fs q \<noteq> None) (ancestors p)
      then (Inl OSError, fs1)
      else (Inr (), fs1\<lparr>dirs := dirs fs \<union> set (ancestors p)\<rparr>))"

text \<open>
  \<open>np.save\<close> writes the array with its shape and dtype into the named file, which
  needs the directory of the file to exist; \<open>np.load\<close> reads such a file back and
  fails with \<open>IOError\<close> when there is none.
\<close>

definition np_save :: "string \<Rightarrow> ndarray \<Rightarrow> filesystem \<Rightarrow> (exc + unit) \<times> filesystem" where
  "np_save filename chunk fs =
     (let fs1 = fs\<lparr>fs_log := fs_log fs @ [Save filename]\<rparr> in
      if filename \<in> dirs fs \<or> fst (os_path_split filename) \<notin> dirs fs
      then (Inl IOError, fs1)
      else (Inr (), fs1\<lparr>files := (files fs)(filename \<mapsto> chunk)\<rparr>))"

definition np_load :: "string \<Rightarrow> filesystem \<Rightarrow> (exc + ndarray) \<times> filesystem" where
  "np_load filename fs =
     (let fs1 = fs\<lparr>fs_log := fs_log fs @ [Load filename]\<rparr> in
      if filename \<in> dirs fs then (Inl IOError, fs1)
      else (case files fs filename of
              None \<Rightarrow> (Inl IOError, fs1)
            | Some a \<Rightarrow> (Inr a, fs1)))"

section \<open>The store of NPY files\<close>

record npy_store =
  path :: string

definition npy_init :: "string \<Rightarrow> filesystem \<Rightarrow> (error + npy_store) \<times> filesystem" where
  "npy_init p fs =
     (let (isd, fs1) = os_path_isdir p fs in
      if \<not> isd then (Inl (Native IOError), fs1)
      else (Inr \<lparr>path = p\<rparr>, fs1))"

definition npy_filename :: "npy_store \<Rightarrow> string \<Rightarrow> string" where
  "npy_filename st key = os_path_join (path st) key @ ''.npy''"

definition npy_get ::
  "npy_store \<Rightarrow> string \<Rightarrow> slices \<Rightarrow> dtype option \<Rightarrow> filesystem \<Rightarrow> (error + ndarray) \<times> filesystem" where
  "npy_get st array_name sl dt fs = (case chunk_name array_name sl of
       Inl e \<Rightarrow> (Inl e, fs)
     | Inr key \<Rightarrow>
        (let filename = npy_filename st key in
         case np_load filename fs of
           (Inl e, fs1) \<Rightarrow> (Inl (Native e), fs1)
         | (Inr a, fs1) \<Rightarrow> (Inr a, fs1)))"

definition npy_put ::
  "npy_store \<Rightarrow> string \<Rightarrow> slices \<Rightarrow> ndarray \<Rightarrow> filesystem \<Rightarrow> (error + unit) \<times> filesystem" where
  "npy_put st array_name sl chunk fs = (case chunk_name array_name sl of
       Inl e \<Rightarrow> (Inl e, fs)
     | Inr key \<Rightarrow>
        (let filename = npy_filename st key;
             dirname = fst (os_path_split filename);
             (isd, fs1) = os_path_isdir dirname fs
         in case (if \<not> isd then os_makedirs dirname fs1 else (Inr (), fs1)) of
              (Inl e, fs2) \<Rightarrow> (Inl (Native e), fs2)
            | (Inr _, fs2) \<Rightarrow>
               (case np_save filename chunk fs2 of
                  (Inl e, fs3) \<Rightarrow> (Inl (Native e), fs3)
                | (Inr _, fs3) \<Rightarrow> (Inr (), fs3))))"

section \<open>The RADOS cluster\<close>

text \<open>
  The Ceph cluster as the calls of the \<open>rados\<close> library see it: what the
  construction of the handle, setting an option and connecting raise (if anything),
  the pools with their objects, and what an object transfer raises besides a missing
  pool or object (a timeout, say). The log lists the requests made to the cluster.
\<close>

datatype conf = ConfDict "(string \<times> string) list" | ConfFile string

datatype rados_event = Connect | OpenIoctx string | Read string int | WriteFull string string

record cluster =
  ctor_fault :: "exc option"
  conf_set_fault :: "string \<Rightarrow> exc option"
  connect_fault :: "exc option"
  pools :: "string \<rightharpoonup> (string \<rightharpoonup> string)"
  io_fault :: "exc option"
  rados_log :: "rados_event list"

definition rados_Rados :: "conf \<Rightarrow> cluster \<Rightarrow> (exc + unit) \<times> cluster" where
  "rados_Rados cf c = (case ctor_fault c of Some e \<Rightarrow> (Inl e, c) | None \<Rightarrow> (Inr (), c))"

definition conf_set :: "string \<Rightarrow> string \<Rightarrow> cluster \<Rightarrow> (exc + unit) \<times> cluster" where
  "conf_set opt val c = (case conf_set_fault c opt of Some e \<Rightarrow> (Inl e, c) | None \<Rightarrow> (Inr (), c))"

definition cluster_connect :: "cluster \<Rightarrow> (exc + unit) \<times> cluster" where
  "cluster_connect c =
     (let c1 = c\<lparr>rados_log := rados_log c @ [Connect]\<rparr> in
      case connect_fault c of Some e \<Rightarrow> (Inl e, c1) | None \<Rightarrow> (Inr (), c1))"

definition open_ioctx :: "string \<Rightarrow> cluster \<Rightarrow> (exc + string) \<times> cluster" where
  "open_ioctx pool c =
     (let c1 = c\<lparr>rados_log := rados_log c @ [OpenIoctx pool]\<rparr> in
      case pools c pool of None \<Rightarrow> (Inl ObjectNotFound, c1) | Some _ \<Rightarrow> (Inr pool, c1))"

text \<open>
  \<open>Ioctx.read(key, length)\<close> returns at most \<open>length\<close> bytes from the start of
  the object and \<open>Ioctx.write_full(key, data)\<close> replaces the whole object. A negative
  length does not convert to the size the library passes on, so no request is made.
\<close>

definition ioctx_read :: "string \<Rightarrow> string \<Rightarrow> int \<Rightarrow> cluster \<Rightarrow> (exc + string) \<times> cluster" where
  "ioctx_read io key len c =
     (if len < 0 then (Inl OtherException, c)
      else let c1 = c\<lparr>rados_log := rados_log c @ [Read key len]\<rparr> in
        case io_fault c of
          Some e \<Rightarrow> (Inl e, c1)
        | None \<Rightarrow>
           (case pools c io of
              None \<Rightarrow> (Inl ObjectNotFound, c1)
            | Some objs \<Rightarrow>
               (case objs key of
                  None \<Rightarrow> (Inl ObjectNotFound, c1)
                | Some bs \<Rightarrow> (Inr (take (nat len) bs), c1))))"

definition ioctx_write_full :: "string \<Rightarrow> string \<Rightarrow> string \<Rightarrow> cluster \<Rightarrow> (exc + unit) \<times> cluster" where
  "ioctx_write_full io key bs c =
     (let c1 = c\<lparr>rados_log := rados_log c @ [WriteFull key bs]\<rparr> in
      case io_fault c of
        Some e \<Rightarrow> (Inl e, c1)
      | None \<Rightarrow>
         (case pools c io of
            None \<Rightarrow> (Inl ObjectNotFound, c1)
          | Some objs \<Rightarrow> (Inr (), c1\<lparr>pools := (pools c)(io \<mapsto> objs(key \<mapsto> bs))\<rparr>)))"

text \<open>
  \<open>np.ndarray(shape, dtype, buffer)\<close> views the first bytes of the buffer as an array;
  it refuses a negative dimension and a buffer that is too small.
\<close>

definition np_ndarray :: "int list \<Rightarrow> dtype \<Rightarrow> string \<Rightarrow> exc + ndarray" where
  "np_ndarray shp dt buf =
     (if list_ex (\<lambda>d. d < 0) shp then Inl OtherException
      else if int (length buf) < np_prod shp * int (itemsize dt) then Inl TypeError
      else Inr \<lparr>shape = shp, dtype = dt,
                data = take (nat (np_prod shp * int (itemsize dt))) buf\<rparr>)"

definition tobytes :: "ndarray \<Rightarrow> string" where
  "tobytes a = data a"

section \<open>The store of RADOS objects\<close>

text \<open>
  A failure outside a \<open>with self._standard_errors()\<close> block leaves as the native
  exception; one inside the block goes through the error map of the store.
\<close>

definition untranslated :: "(exc + 'a) \<times> 's \<Rightarrow> (error + 'a) \<times> 's" where
  "untranslated r = (case r of (Inl e, s) \<Rightarrow> (Inl (Native e), s) | (Inr v, s) \<Rightarrow> (Inr v, s))"

definition translated :: "(exc \<rightharpoonup> error) \<Rightarrow> (exc + 'a) \<times> 's \<Rightarrow> (error + 'a) \<times> 's" where
  "translated m r = (case r of (x, s) \<Rightarrow> (standard_errors m x, s))"

record rados_store =
  ioctx :: string
  error_map :: "exc \<rightharpoonup> error"

definition initial_error_map :: "exc \<rightharpoonup> error" where
  "initial_error_map = [TimedOut \<mapsto> StoreUnavailable, ObjectNotFound \<mapsto> StoreUnavailable]"

text \<open>
  The constructor. \<open>rados_present\<close> says whether the import of the \<open>rados\<close> module
  succeeded, the keyring is set when it is given and not empty, and the timeout comes
  as the text \<open>str(timeout)\<close> that is handed to the cluster. The constructor of the
  base class keeps the error map it is given as the map of the store, which the last
  statement of this constructor updates.
\<close>

definition rados_init ::
  "bool \<Rightarrow> conf \<Rightarrow> string \<Rightarrow> string option \<Rightarrow> string option \<Rightarrow> cluster
     \<Rightarrow> (error + rados_store) \<times> cluster" where
  "rados_init rados_present cf pool keyring timeout c =
     (if \<not> rados_present then (Inl (Native ImportError), c)
      else case untranslated (rados_Rados cf c) of
        (Inl e, c1) \<Rightarrow> (Inl e, c1)
      | (Inr _, c1) \<Rightarrow>
         (case (case keyring of
                  Some k \<Rightarrow> if k \<noteq> [] then untranslated (conf_set ''keyring'' k c1)
                            else (Inr (), c1)
                | None \<Rightarrow> (Inr (), c1)) of
            (Inl e, c2) \<Rightarrow> (Inl e, c2)
          | (Inr _, c2) \<Rightarrow>
             (case (case timeout of
                      Some t \<Rightarrow> untranslated (conf_set ''client mount timeout'' t c2)
                    | None \<Rightarrow> (Inr (), c2)) of
                (Inl e, c3) \<Rightarrow> (Inl e, c3)
              | (Inr _, c3) \<Rightarrow>
                 (case translated initial_error_map (cluster_connect c3) of
                    (Inl e, c4) \<Rightarrow> (Inl e, c4)
                  | (Inr _, c4) \<Rightarrow>
                     (case translated initial_error_map (open_ioctx pool c4) of
                        (Inl e, c5) \<Rightarrow> (Inl e, c5)
                      | (Inr io, c5) \<Rightarrow>
                         (Inr \<lparr>ioctx = io,
                               error_map = initial_error_map(ObjectNotFound \<mapsto> ChunkNotFound)\<rparr>,
                          c5))))))"

definition rados_get ::
  "rados_store \<Rightarrow> string \<Rightarrow> slices \<Rightarrow> dtype \<Rightarrow> cluster \<Rightarrow> (error + ndarray) \<times> cluster" where
  "rados_get st array_name sl dt c = (case chunk_metadata array_name sl None (Some dt) of
       Inl e \<Rightarrow> (Inl e, c)
     | Inr (key, shp) \<Rightarrow>
        (let num_bytes = np_prod shp * int (itemsize dt) in
         case translated (error_map st) (ioctx_read (ioctx st) key num_bytes c) of
           (Inl e, c1) \<Rightarrow> (Inl e, c1)
         | (Inr data_str, c1) \<Rightarrow>
            (case np_ndarray shp dt data_str of
               Inl e \<Rightarrow> (Inl (Native e), c1)
             | Inr a \<Rightarrow> (Inr a, c1))))"

text \<open>
  Modelled from the spec: the helper that \<open>RadosChunkStore.put\<close> calls as
  \<open>self.chunk_name(array_name, slices, chunk=chunk)\<close> and unpacks as key and shape
  lives in \<open>katdal/chunkstore.py\<close>, which is missing from the sources. Called with
  the payload and giving key and shape, it is the spec's metadata derivation from
  the payload.
\<close>

definition chunk_name_of_chunk :: "string \<Rightarrow> slices \<Rightarrow> ndarray \<Rightarrow> error + (string \<times> int list)" where
  "chunk_name_of_chunk array_name sl chunk = chunk_metadata array_name sl (Some chunk) None"

definition rados_put ::
  "rados_store \<Rightarrow> string \<Rightarrow> slices \<Rightarrow> ndarray \<Rightarrow> cluster \<Rightarrow> (error + unit) \<times> cluster" where
  "rados_put st array_name sl chunk c = (case chunk_name_of_chunk array_name sl chunk of
       Inl e \<Rightarrow> (Inl e, c)
     | Inr (key, shp) \<Rightarrow>
        (let data_str = tobytes chunk in
         translated (error_map st) (ioctx_write_full (ioctx st) key data_str c)))"

section \<open>Valid requests\<close>


section \<open>Reading an index string back\<close>

text \<open>
  The number that a formatted start offset stands for: the digits are summed up from
  the left, and a leading \<open>-\<close> negates.
\<close>

definition digit_val :: "char \<Rightarrow> nat" where
  "digit_val c = of_char c - 48"

definition dec :: "string \<Rightarrow> nat" where
  "dec s = foldl (\<lambda>a c. 10 * a + digit_val c) 0 s"

definition dec_signed :: "string \<Rightarrow> int" where
  "dec_signed s = (case s of [] \<Rightarrow> 0
     | c # cs \<Rightarrow> if c = CHR ''-'' then - int (dec cs) else int (dec s))"

section \<open>Example values\<close>

text \<open>
  A reachable cluster without any pool, one with the empty pool \<open>pool\<close>, the store
  that the constructor builds on that pool, a file system that holds the empty
  directory \<open>/data\<close>, and an array of two 8-byte integers.
\<close>

definition cluster_no_pool :: cluster where
  "cluster_no_pool = \<lparr>ctor_fault = None, conf_set_fault = (\<lambda>_. None), connect_fault = None,
     pools = Map.empty, io_fault = None, rados_log = []\<rparr>"

definition cluster_empty_pool :: cluster where
  "cluster_empty_pool = \<lparr>ctor_fault = None, conf_set_fault = (\<lambda>_. None), connect_fault = None,
     pools = [''pool'' \<mapsto> Map.empty], io_fault = None, rados_log = []\<rparr>"

definition store_on_pool :: rados_store where
  "store_on_pool = \<lparr>ioctx = ''pool'',
     error_map = initial_error_map(ObjectNotFound \<mapsto> ChunkNotFound)\<rparr>"

definition fs_data :: filesystem where
  "fs_data = \<lparr>dirs = {''/data''}, files = Map.empty, fs_log = []\<rparr>"

definition two_ints :: ndarray where
  "two_ints = \<lparr>shape = [2], dtype = DType IntKind 8, data = replicate 16 (CHR 0x00)\<rparr>"

section \<open>Facts about the derivation of keys and shapes\<close>







lemma chunk_name_error: "chunk_name n sl = Inl e \<Longrightarrow> e = MalformedRequest"
  by (auto simp: chunk_name_def split: slices.splits if_splits)

lemma chunk_metadata_error: "chunk_metadata n sl c d = Inl e \<Longrightarrow> e = MalformedRequest"
  by (auto simp: chunk_metadata_def Let_def dest: chunk_name_error
      split: sum.splits slices.splits option.splits if_splits)

lemma chunk_name_bad_step:
  "Range s \<in> set xs \<Longrightarrow> step s \<noteq> None \<Longrightarrow> step s \<noteq> Some 1
   \<Longrightarrow> chunk_name n (Seq xs) = Inl MalformedRequest"
  by (auto simp: chunk_name_def list_all_iff unit_stride_def)

lemma chunk_metadata_bad_step:
  "Range s \<in> set xs \<Longrightarrow> step s \<noteq> None \<Longrightarrow> step s \<noteq> Some 1
   \<Longrightarrow> chunk_metadata n (Seq xs) c d = Inl MalformedRequest"
  by (simp add: chunk_metadata_def chunk_name_bad_step)

text \<open>Some keys, paths and directories of the examples below.\<close>

lemma key_x_0: "chunk_name ''x'' (Seq [Range (PySlice (Some 0) (Some 10) (Some 1))]) = Inr ''x/00000''"
  by code_simp

lemma key_haha_0: "chunk_name ''haha'' (Seq [Range (PySlice (Some 0) (Some 1) None)]) = Inr ''haha/00000''"
  by code_simp

lemma split_data_x_0: "os_path_split ''/data/x/00000.npy'' = (''/data/x'', ''00000.npy'')"
  by code_simp

lemma ancestors_data_x: "ancestors ''/data/x'' = [''/data/x'', ''/data'', ''/'']"
  by code_simp

section \<open>Construction of the store of NPY files\<close>

text \<open>
  C9: constructing the store of NPY files on a path that is no existing directory
  fails with the native \<open>IOError\<close> and yields no store that \<open>get\<close> or \<open>put\<close> could
  be called on; on an existing directory it yields the store on that path, and all
  it does to the file system is the one directory test.
\<close>

theorem npy_init_fail_fast:
  "(p \<notin> dirs fs \<longrightarrow> fst (npy_init p fs) = Inl (Native IOError))
   \<and> (p \<in> dirs fs \<longrightarrow> fst (npy_init p fs) = Inr \<lparr>path = p\<rparr>)
   \<and> snd (npy_init p fs) = fs\<lparr>fs_log := fs_log fs @ [Isdir p]\<rparr>"
  by (simp add: npy_init_def os_path_isdir_def)

theorem npy_init_fail_fast_witness:
  "fst (npy_init ''/data'' \<lparr>dirs = {''/data''}, files = Map.empty, fs_log = []\<rparr>)
     = Inr \<lparr>path = ''/data''\<rparr>
   \<and> fst (npy_init ''/nowhere'' \<lparr>dirs = {''/data''}, files = Map.empty, fs_log = []\<rparr>)
     = Inl (Native IOError)"
  using npy_init_fail_fast [of "''/data''" "\<lparr>dirs = {''/data''}, files = Map.empty, fs_log = []\<rparr>"]
    npy_init_fail_fast [of "''/nowhere''" "\<lparr>dirs = {''/data''}, files = Map.empty, fs_log = []\<rparr>"]
  by simp

section \<open>Requests with a stride\<close>

text \<open>
  C2: in both stores, \<open>get\<close> and \<open>put\<close> answer a slice specification in which some
  range descriptor has a step other than 1 with \<open>MalformedRequest\<close>, and the file system
  and the cluster are left as they were, with no request logged.
\<close>

theorem stride_rejected_before_io:
  assumes "Range s \<in> set xs" and "step s \<noteq> None" and "step s \<noteq> Some 1"
  shows "npy_get st n (Seq xs) dt fs = (Inl MalformedRequest, fs)
     \<and> npy_put st n (Seq xs) chunk fs = (Inl MalformedRequest, fs)
     \<and> rados_get rs n (Seq xs) d c = (Inl MalformedRequest, c)
     \<and> rados_put rs n (Seq xs) chunk c = (Inl MalformedRequest, c)"
  using assms
  by (simp add: npy_get_def npy_put_def rados_get_def rados_put_def chunk_name_of_chunk_def
      chunk_name_bad_step chunk_metadata_bad_step)

theorem stride_rejected_before_io_witness:
  "npy_get \<lparr>path = ''/data''\<rparr> ''x'' (Seq [Range (PySlice (Some 0) (Some 10) (Some 2))]) None
       \<lparr>dirs = {''/data''}, files = Map.empty, fs_log = []\<rparr>
     = (Inl MalformedRequest, \<lparr>dirs = {''/data''}, files = Map.empty, fs_log = []\<rparr>)
   \<and> rados_put \<lparr>ioctx = ''pool'', error_map = Map.empty\<rparr> ''x''
       (Seq [Range (PySlice (Some 0) (Some 10) (Some 2))])
       \<lparr>shape = [10], dtype = DType IntKind 1, data = replicate 10 (CHR 0x00)\<rparr>
       \<lparr>ctor_fault = None, conf_set_fault = (\<lambda>_. None), connect_fault = None,
        pools = Map.empty, io_fault = None, rados_log = []\<rparr>
     = (Inl MalformedRequest,
        \<lparr>ctor_fault = None, conf_set_fault = (\<lambda>_. None), connect_fault = None,
         pools = Map.empty, io_fault = None, rados_log = []\<rparr>)"
  using stride_rejected_before_io [of "PySlice (Some 0) (Some 10) (Some 2)"
      "[Range (PySlice (Some 0) (Some 10) (Some 2))]"
      "\<lparr>path = ''/data''\<rparr>" "''x''" None
      "\<lparr>dirs = {''/data''}, files = Map.empty, fs_log = []\<rparr>"
      "\<lparr>shape = [10], dtype = DType IntKind 1, data = replicate 10 (CHR 0x00)\<rparr>"
      "\<lparr>ioctx = ''pool'', error_map = Map.empty\<rparr>" "DType IntKind 1"
      "\<lparr>ctor_fault = None, conf_set_fault = (\<lambda>_. None), connect_fault = None,
        pools = Map.empty, io_fault = None, rados_log = []\<rparr>"]
  by simp

section \<open>Missing chunks\<close>

text \<open>
  The store of RADOS objects answers a \<open>get\<close> for a key without object with
  \<open>ChunkNotFound\<close>, once its error map sends \<open>ObjectNotFound\<close> there.
\<close>

lemma rados_get_missing_chunk:
  assumes "chunk_metadata n sl None (Some dt) = Inr (key, shp)"
    and "0 \<le> np_prod shp * int (itemsize dt)"
    and "error_map st ObjectNotFound = Some ChunkNotFound"
    and "io_fault c = None" and "pools c (ioctx st) = Some objs" and "objs key = None"
  shows "fst (rados_get st n sl dt c) = Inl ChunkNotFound"
  using assms
  by (simp add: rados_get_def translated_def ioctx_read_def standard_errors_def Let_def)

text \<open>
  C1: the store of NPY files does not answer so. The request of the store tests, a
  \<open>get\<close> of \<open>haha\<close> at \<open>slice(0, 1)\<close> in a store that holds no chunk, ends in the
  \<open>IOError\<close> of \<open>np.load\<close>.
\<close>

theorem npy_get_missing_chunk_native:
  "fst (npy_get \<lparr>path = ''/data''\<rparr> ''haha'' (Seq [Range (PySlice (Some 0) (Some 1) None)])
       (Some (DType FloatKind 8)) \<lparr>dirs = {''/data''}, files = Map.empty, fs_log = []\<rparr>)
     = Inl (Native IOError)"
  by (simp add: npy_get_def key_haha_0 np_load_def npy_filename_def os_path_join_def)

section \<open>Payloads of the wrong shape\<close>

text \<open>
  The store of RADOS objects hands the payload to the metadata derivation, which
  refuses a payload whose shape is not the one of the slices; nothing is written.
\<close>

lemma rados_put_shape_mismatch:
  "shape chunk \<noteq> chunk_shape xs \<Longrightarrow> rados_put st n (Seq xs) chunk c = (Inl MalformedRequest, c)"
  by (auto simp: rados_put_def chunk_name_of_chunk_def chunk_metadata_def dest: chunk_name_error
      split: sum.split)

text \<open>
  C3: the store of NPY files derives the key from the name and the slices alone. A
  \<open>put\<close> of eleven elements at \<open>slice(0, 10, 1)\<close> succeeds and writes them into the
  file of the chunk.
\<close>

theorem npy_put_shape_mismatch_written:
  "fst (npy_put \<lparr>path = ''/data''\<rparr> ''x'' (Seq [Range (PySlice (Some 0) (Some 10) (Some 1))])
       \<lparr>shape = [11], dtype = DType FloatKind 8, data = replicate 88 (CHR 0x00)\<rparr>
       \<lparr>dirs = {''/data''}, files = Map.empty, fs_log = []\<rparr>) = Inr ()
   \<and> files (snd (npy_put \<lparr>path = ''/data''\<rparr> ''x''
       (Seq [Range (PySlice (Some 0) (Some 10) (Some 1))])
       \<lparr>shape = [11], dtype = DType FloatKind 8, data = replicate 88 (CHR 0x00)\<rparr>
       \<lparr>dirs = {''/data''}, files = Map.empty, fs_log = []\<rparr>)) ''/data/x/00000.npy''
      = Some \<lparr>shape = [11], dtype = DType FloatKind 8, data = replicate 88 (CHR 0x00)\<rparr>"
  by (simp add: npy_put_def key_x_0 npy_filename_def os_path_join_def split_data_x_0
      os_path_isdir_def os_makedirs_def np_save_def ancestors_data_x Let_def)

section \<open>Reading a chunk from the RADOS store\<close>




section \<open>The error map of the RADOS store\<close>

lemma untranslated_Rados:
  "untranslated (rados_Rados cf c)
     = (case ctor_fault c of Some e \<Rightarrow> (Inl (Native e), c) | None \<Rightarrow> (Inr (), c))"
  by (simp add: untranslated_def rados_Rados_def split: option.split)

lemma untranslated_conf_set:
  "untranslated (conf_set opt v c)
     = (case conf_set_fault c opt of Some e \<Rightarrow> (Inl (Native e), c) | None \<Rightarrow> (Inr (), c))"
  by (simp add: untranslated_def conf_set_def split: option.split)

lemma translated_connect:
  "translated initial_error_map (cluster_connect c)
     = (case connect_fault c of
          Some e \<Rightarrow> (Inl (if e = TimedOut \<or> e = ObjectNotFound then StoreUnavailable else Native e),
                      c\<lparr>rados_log := rados_log c @ [Connect]\<rparr>)
        | None \<Rightarrow> (Inr (), c\<lparr>rados_log := rados_log c @ [Connect]\<rparr>))"
  by (simp add: translated_def cluster_connect_def standard_errors_def initial_error_map_def Let_def
      split: option.split)

lemma translated_open_ioctx:
  "translated initial_error_map (open_ioctx pool c)
     = (case pools c pool of
          None \<Rightarrow> (Inl StoreUnavailable, c\<lparr>rados_log := rados_log c @ [OpenIoctx pool]\<rparr>)
        | Some _ \<Rightarrow> (Inr pool, c\<lparr>rados_log := rados_log c @ [OpenIoctx pool]\<rparr>))"
  by (simp add: translated_def open_ioctx_def standard_errors_def initial_error_map_def Let_def
      split: option.split)

lemmas rados_init_steps = untranslated_Rados untranslated_conf_set translated_connect
  translated_open_ioctx

lemma rados_init_cases:
  "(case fst (rados_init present cf pool keyring timeout c) of
      Inl e \<Rightarrow> e \<noteq> ChunkNotFound
    | Inr st \<Rightarrow> ioctx st = pool \<and> error_map st = initial_error_map(ObjectNotFound \<mapsto> ChunkNotFound))"
  by (simp add: rados_init_def rados_init_steps split: option.split)

lemma rados_init_not_chunk_not_found:
  "fst (rados_init present cf pool keyring timeout c) \<noteq> Inl ChunkNotFound"
  using rados_init_cases [where present = present and cf = cf and pool = pool
      and keyring = keyring and timeout = timeout and c = c] by (auto split: sum.splits)

lemma rados_init_error_map:
  "fst (rados_init present cf pool keyring timeout c) = Inr st
   \<Longrightarrow> error_map st = initial_error_map(ObjectNotFound \<mapsto> ChunkNotFound)"
  using rados_init_cases [where present = present and cf = cf and pool = pool
      and keyring = keyring and timeout = timeout and c = c] by (auto split: sum.splits)

lemma rados_init_unavailable:
  assumes "present" "ctor_fault c = None" "\<forall>opt. conf_set_fault c opt = None"
    "connect_fault c = Some ObjectNotFound \<or> (connect_fault c = None \<and> pools c pool = None)"
  shows "fst (rados_init present cf pool keyring timeout c) = Inl StoreUnavailable"
  using assms
  by (auto simp: rados_init_def rados_init_steps split: option.split)

lemma rados_get_not_found:
  assumes "error_map st ObjectNotFound = Some ChunkNotFound"
    "chunk_metadata n sl None (Some dt) = Inr (key, shp)"
    "fst (ioctx_read (ioctx st) key (np_prod shp * int (itemsize dt)) c') = Inl ObjectNotFound"
  shows "fst (rados_get st n sl dt c') = Inl ChunkNotFound"
  using assms
  by (cases "ioctx_read (ioctx st) key (np_prod shp * int (itemsize dt)) c'")
     (simp add: rados_get_def translated_def standard_errors_def Let_def)

lemma rados_put_not_found:
  assumes "error_map st ObjectNotFound = Some ChunkNotFound"
    "chunk_name_of_chunk n sl chunk = Inr (key, shp)"
    "fst (ioctx_write_full (ioctx st) key (tobytes chunk) c') = Inl ObjectNotFound"
  shows "fst (rados_put st n sl chunk c') = Inl ChunkNotFound"
  using assms
  by (cases "ioctx_write_full (ioctx st) key (tobytes chunk) c'")
     (simp add: rados_put_def translated_def standard_errors_def Let_def)

text \<open>
  C6: the constructor of the store of RADOS objects never fails with \<open>ChunkNotFound\<close>.
  When the handle is built and configured, an \<open>ObjectNotFound\<close> of the connection
  or a pool that does not exist makes it fail with \<open>StoreUnavailable\<close>. A store that
  the constructor has returned maps \<open>ObjectNotFound\<close> to \<open>ChunkNotFound\<close>: a \<open>get\<close>
  whose read and a \<open>put\<close> whose write raise \<open>ObjectNotFound\<close> fail with
  \<open>ChunkNotFound\<close>.
\<close>

theorem object_not_found_by_phase:
  "fst (rados_init present cf pool keyring timeout c) \<noteq> Inl ChunkNotFound
   \<and> (present \<and> ctor_fault c = None \<and> (\<forall>opt. conf_set_fault c opt = None)
       \<and> (connect_fault c = Some ObjectNotFound \<or> (connect_fault c = None \<and> pools c pool = None))
      \<longrightarrow> fst (rados_init present cf pool keyring timeout c) = Inl StoreUnavailable)
   \<and> (\<forall>st. fst (rados_init present cf pool keyring timeout c) = Inr st \<longrightarrow>
        error_map st ObjectNotFound = Some ChunkNotFound
        \<and> (\<forall>n sl dt c' key shp. chunk_metadata n sl None (Some dt) = Inr (key, shp)
             \<and> fst (ioctx_read (ioctx st) key (np_prod shp * int (itemsize dt)) c') = Inl ObjectNotFound
             \<longrightarrow> fst (rados_get st n sl dt c') = Inl ChunkNotFound)
        \<and> (\<forall>n sl chunk c' key shp. chunk_name_of_chunk n sl chunk = Inr (key, shp)
             \<and> fst (ioctx_write_full (ioctx st) key (tobytes chunk) c') = Inl ObjectNotFound
             \<longrightarrow> fst (rados_put st n sl chunk c') = Inl ChunkNotFound))"
proof (intro conjI allI impI)
  show "fst (rados_init present cf pool keyring timeout c) \<noteq> Inl ChunkNotFound"
    by (rule rados_init_not_chunk_not_found)
next
  assume "present \<and> ctor_fault c = None \<and> (\<forall>opt. conf_set_fault c opt = None)
       \<and> (connect_fault c = Some ObjectNotFound \<or> (connect_fault c = None \<and> pools c pool = None))"
  then show "fst (rados_init present cf pool keyring timeout c) = Inl StoreUnavailable"
    by (intro rados_init_unavailable) auto
next
  fix st assume "fst (rados_init present cf pool keyring timeout c) = Inr st"
  then have "error_map st = initial_error_map(ObjectNotFound \<mapsto> ChunkNotFound)"
    by (rule rados_init_error_map)
  then have m: "error_map st ObjectNotFound = Some ChunkNotFound"
    by simp
  show "error_map st ObjectNotFound = Some ChunkNotFound" by (rule m)
  { fix n sl dt c' key shp
    assume "chunk_metadata n sl None (Some dt) = Inr (key, shp)
             \<and> fst (ioctx_read (ioctx st) key (np_prod shp * int (itemsize dt)) c') = Inl ObjectNotFound"
    then show "fst (rados_get st n sl dt c') = Inl ChunkNotFound"
      using m by (auto intro: rados_get_not_found) }
  { fix n sl chunk c' key shp
    assume "chunk_name_of_chunk n sl chunk = Inr (key, shp)
             \<and> fst (ioctx_write_full (ioctx st) key (tobytes chunk) c') = Inl ObjectNotFound"
    then show "fst (rados_put st n sl chunk c') = Inl ChunkNotFound"
      using m by (auto intro: rados_put_not_found) }
qed

lemma meta_haha_0:
  "chunk_metadata ''haha'' (Seq [Range (PySlice (Some 0) (Some 1) None)]) None (Some (DType FloatKind 8))
     = Inr (''haha/00000'', [1])"
  by code_simp

text \<open>
  A cluster without the pool makes the constructor fail with \<open>StoreUnavailable\<close>; on a
  cluster with the pool it builds the store, whose \<open>get\<close> of a key without object fails
  with \<open>ChunkNotFound\<close>.
\<close>

theorem object_not_found_by_phase_witness:
  "fst (rados_init True (ConfFile ''ceph.conf'') ''pool'' None (Some ''5.0'') cluster_no_pool)
     = Inl StoreUnavailable
   \<and> fst (rados_init True (ConfFile ''ceph.conf'') ''pool'' None (Some ''5.0'') cluster_empty_pool)
     = Inr store_on_pool
   \<and> fst (rados_get store_on_pool ''haha'' (Seq [Range (PySlice (Some 0) (Some 1) None)])
        (DType FloatKind 8) cluster_empty_pool) = Inl ChunkNotFound"
proof -
  have a: "fst (rados_init True (ConfFile ''ceph.conf'') ''pool'' None (Some ''5.0'') cluster_no_pool)
     = Inl StoreUnavailable"
    using object_not_found_by_phase [of True "ConfFile ''ceph.conf''" "''pool''" None "Some ''5.0''" cluster_no_pool]
    by (simp add: cluster_no_pool_def)
  have b: "fst (rados_init True (ConfFile ''ceph.conf'') ''pool'' None (Some ''5.0'') cluster_empty_pool)
     = Inr store_on_pool"
    by (simp add: rados_init_def rados_init_steps cluster_empty_pool_def store_on_pool_def)
  have r: "fst (ioctx_read (ioctx store_on_pool) ''haha/00000'' (np_prod [1] * int (itemsize (DType FloatKind 8)))
      cluster_empty_pool) = Inl ObjectNotFound"
    by (simp add: ioctx_read_def cluster_empty_pool_def store_on_pool_def np_prod_def)
  have g: "fst (rados_get store_on_pool ''haha'' (Seq [Range (PySlice (Some 0) (Some 1) None)])
        (DType FloatKind 8) cluster_empty_pool) = Inl ChunkNotFound"
    using object_not_found_by_phase [of True "ConfFile ''ceph.conf''" "''pool''" None "Some ''5.0''" cluster_empty_pool] b
      meta_haha_0 r
    by blast
  from a b g show ?thesis by blast
qed

section \<open>Standard failure kinds of the store of NPY files\<close>




section \<open>Keys of different chunks\<close>

lemma of_char_digit_char: "d < 10 \<Longrightarrow> of_char (digit_char d) = (48 + d :: nat)"
  by (simp add: digit_char_def)

lemma digit_val_digit_char: "d < 10 \<Longrightarrow> digit_val (digit_char d) = d"
  by (simp add: digit_val_def of_char_digit_char)

lemma digit_char_neq:
  assumes "d < 10" and "(of_char c :: nat) < 48 \<or> 57 < (of_char c :: nat)"
  shows "digit_char d \<noteq> c"
proof
  assume "digit_char d = c"
  then have "of_char (digit_char d) = (of_char c :: nat)" by simp
  with assms show False by (simp add: of_char_digit_char)
qed

lemma digit_char_not_underscore: "d < 10 \<Longrightarrow> digit_char d \<noteq> CHR ''_''"
  by (rule digit_char_neq) simp_all

lemma digit_char_not_minus: "d < 10 \<Longrightarrow> digit_char d \<noteq> CHR ''-''"
  by (rule digit_char_neq) simp_all

lemma digit_val_zero: "digit_val (CHR ''0'') = 0"
  by (simp add: digit_val_def)

lemma dec_snoc: "dec (s @ [c]) = 10 * dec s + digit_val c"
  by (simp add: dec_def)

lemma dec_digits: "dec (digits n) = n"
proof (induction n rule: digits.induct)
  case (1 n)
  show ?case
  proof (cases "n < 10")
    case True
    then show ?thesis
      by (simp add: digits.simps [of n] dec_def digit_val_digit_char)
  next
    case False
    with "1" have "dec (digits (n div 10)) = n div 10" by simp
    with False show ?thesis
      by (simp add: digits.simps [of n] dec_snoc digit_val_digit_char)
  qed
qed

lemma dec_zeros: "dec (replicate k (CHR ''0'') @ s) = dec s"
proof -
  have "foldl (\<lambda>a c. 10 * a + digit_val c) 0 (replicate k (CHR ''0'')) = 0"
    by (induction k) (simp_all add: digit_val_zero)
  then show ?thesis by (simp add: dec_def)
qed

lemma dec_zfill: "dec (zfill w (digits n)) = n"
  by (simp add: zfill_def dec_zeros dec_digits)

lemma digits_chars: "c \<in> set (digits n) \<Longrightarrow> \<exists>d<10. c = digit_char d"
proof (induction n rule: digits.induct)
  case (1 n)
  show ?case
  proof (cases "n < 10")
    case True
    with "1.prems" show ?thesis by (auto simp: digits.simps [of n])
  next
    case False
    with "1.prems" have "c \<in> set (digits (n div 10)) \<or> c = digit_char (n mod 10)"
      by (auto simp: digits.simps [of n])
    then show ?thesis
    proof
      assume "c \<in> set (digits (n div 10))"
      with "1.IH" False show ?thesis by simp
    next
      assume "c = digit_char (n mod 10)"
      moreover have "n mod 10 < 10" by simp
      ultimately show ?thesis by blast
    qed
  qed
qed

lemma digits_nonempty: "digits n \<noteq> []"
  by (subst digits.simps) simp

lemma zfill_chars: "c \<in> set (zfill w (digits n)) \<Longrightarrow> \<exists>d<10. c = digit_char d"
proof -
  have z: "CHR ''0'' = digit_char 0" by code_simp
  assume "c \<in> set (zfill w (digits n))"
  then have "c = CHR ''0'' \<or> c \<in> set (digits n)"
    by (auto simp: zfill_def)
  then show ?thesis using z digits_chars by (metis zero_less_numeral)
qed

lemma zfill_nonempty: "zfill w (digits n) \<noteq> []"
  by (simp add: zfill_def digits_nonempty)

lemma hd_zfill_not_minus: "hd (zfill w (digits n)) \<noteq> CHR ''-''"
proof -
  have "hd (zfill w (digits n)) \<in> set (zfill w (digits n))"
    using zfill_nonempty by (rule hd_in_set)
  then obtain d where "d < 10" "hd (zfill w (digits n)) = digit_char d"
    using zfill_chars by blast
  then show ?thesis by (simp add: digit_char_not_minus)
qed

lemma dec_signed_format: "dec_signed (format_05d n) = n"
proof (cases "n < 0")
  case True
  then show ?thesis by (simp add: format_05d_def dec_signed_def dec_zfill)
next
  case False
  obtain c cs where z: "zfill 5 (digits (nat n)) = c # cs"
    using zfill_nonempty [of 5 "nat n"] by (cases "zfill 5 (digits (nat n))") auto
  with hd_zfill_not_minus [of 5 "nat n"] have "c \<noteq> CHR ''-''" by simp
  moreover have "dec (c # cs) = nat n" using dec_zfill [of 5 "nat n"] z by simp
  ultimately show ?thesis using False z by (simp add: format_05d_def dec_signed_def)
qed

lemma format_05d_inj: "format_05d a = format_05d b \<Longrightarrow> a = b"
  by (metis dec_signed_format)

lemma format_05d_no_underscore: "CHR ''_'' \<notin> set (format_05d n)"
proof
  assume a: "CHR ''_'' \<in> set (format_05d n)"
  then have "\<exists>w m. CHR ''_'' \<in> set (zfill w (digits m))"
    by (auto simp: format_05d_def split: if_splits)
  then obtain d where "d < 10" "CHR ''_'' = digit_char d"
    using zfill_chars by blast
  then show False using digit_char_not_underscore by metis
qed

lemma split_at_first:
  assumes "c \<notin> set x" and "c \<notin> set y" and "x @ c # r = y @ c # s"
  shows "x = y \<and> r = s"
proof -
  have "takeWhile (\<lambda>z. z \<noteq> c) (x @ c # r) = x"
    using assms(1) by (auto simp: takeWhile_tail)
  moreover have "takeWhile (\<lambda>z. z \<noteq> c) (y @ c # s) = y"
    using assms(2) by (auto simp: takeWhile_tail)
  ultimately have "x = y" using assms(3) by simp
  with assms(3) show ?thesis by simp
qed

lemma str_join_Cons: "xs \<noteq> [] \<Longrightarrow> str_join sep (x # xs) = x @ sep @ str_join sep xs"
  by (cases xs) simp_all

lemma str_join_inj:
  assumes "xs \<noteq> []" and "ys \<noteq> []"
    and "\<forall>x\<in>set xs. c \<notin> set x" and "\<forall>y\<in>set ys. c \<notin> set y"
    and "str_join [c] xs = str_join [c] ys"
  shows "xs = ys"
  using assms
proof (induction xs arbitrary: ys)
  case Nil
  then show ?case by simp
next
  case (Cons x xs)
  note IH = Cons.IH and ne = Cons.prems(2) and cx = Cons.prems(3) and cy = Cons.prems(4)
    and eq = Cons.prems(5)
  obtain y ys' where ys: "ys = y # ys'" using ne by (cases ys) auto
  have x: "c \<notin> set x" and y: "c \<notin> set y" using cx cy ys by simp_all
  show ?case
  proof (cases "xs = []")
    case True
    have "ys' = []"
    proof (rule ccontr)
      assume n: "ys' \<noteq> []"
      from eq ys True have "x = y @ [c] @ str_join [c] ys'"
        by (simp add: str_join_Cons [OF n])
      then have "c \<in> set x" by simp
      with x show False by simp
    qed
    with eq ys True show ?thesis by simp
  next
    case False
    have n: "ys' \<noteq> []"
    proof
      assume e: "ys' = []"
      from eq ys e have "y = x @ [c] @ str_join [c] xs"
        by (simp add: str_join_Cons [OF False])
      then have "c \<in> set y" by simp
      with y show False by simp
    qed
    from eq ys have "x @ c # str_join [c] xs = y @ c # str_join [c] ys'"
      by (simp add: str_join_Cons [OF False] str_join_Cons [OF n])
    with x y have xy: "x = y" and r: "str_join [c] xs = str_join [c] ys'"
      using split_at_first [of c x y "str_join [c] xs" "str_join [c] ys'"] by simp_all
    have "\<forall>x\<in>set xs. c \<notin> set x" using cx by simp
    moreover have "\<forall>y\<in>set ys'. c \<notin> set y" using cy ys by simp
    ultimately have "xs = ys'" using IH [OF False n _ _ r] by blast
    with xy ys show ?thesis by simp
  qed
qed

lemma idxstr_inj:
  assumes "xs \<noteq> []" and "ys \<noteq> []" and "idxstr xs = idxstr ys"
  shows "map start_of xs = map start_of ys"
proof -
  let ?f = "\<lambda>i. format_05d (start_of i)"
  have "map ?f xs = map ?f ys"
  proof (rule str_join_inj [where c = "CHR ''_''"])
    show "map ?f xs \<noteq> []" using assms(1) by simp
    show "map ?f ys \<noteq> []" using assms(2) by simp
    show "\<forall>x\<in>set (map ?f xs). CHR ''_'' \<notin> set x" by (simp add: format_05d_no_underscore)
    show "\<forall>y\<in>set (map ?f ys). CHR ''_'' \<notin> set y" by (simp add: format_05d_no_underscore)
    show "str_join ''_'' (map ?f xs) = str_join ''_'' (map ?f ys)"
      using assms(3) by (simp add: idxstr_def)
  qed
  then have "map format_05d (map start_of xs) = map format_05d (map start_of ys)"
    by (simp add: comp_def)
  moreover have "inj format_05d" by (rule injI) (rule format_05d_inj)
  ultimately show ?thesis by (simp only: inj_map_eq_map)
qed

lemma chunk_name_Inr:
  "chunk_name n (Seq xs) = Inr k \<Longrightarrow> xs \<noteq> [] \<and> k = n @ ''/'' @ idxstr xs"
  by (auto simp: chunk_name_def join_def split: if_splits)

lemma chunk_metadata_key:
  "chunk_metadata n sl c d = Inr (k, shp) \<Longrightarrow> chunk_name n sl = Inr k"
  by (auto simp: chunk_metadata_def Let_def split: sum.splits slices.splits option.splits if_splits)

lemma key_x_3: "chunk_name ''x'' (Seq [Range (PySlice (Some 3) (Some 5) None)]) = Inr ''x/00003''"
  by code_simp

lemma key_x_4: "chunk_name ''x'' (Seq [Range (PySlice (Some 4) (Some 6) None)]) = Inr ''x/00004''"
  by code_simp

lemma meta_x_3:
  "chunk_metadata ''x'' (Seq [Range (PySlice (Some 3) (Some 5) None)]) None (Some (DType IntKind 8))
     = Inr (''x/00003'', [2])"
  by code_simp


lemma split_data_x_3: "os_path_split ''/data/x/00003.npy'' = (''/data/x'', ''00003.npy'')"
  by code_simp



lemma idxstr_3: "idxstr [Range (PySlice (Some 3) (Some 5) None)] = ''00003''"
  by code_simp

text \<open>
  C5: the key is a function of the array name and the slice specification alone: the
  key that the metadata derivation returns, whatever payload and dtype it is given, is
  the one of the key derivation, and neither reads any state. For one array name, two
  slice specifications with start offsets below 100000, the capacity of five digits,
  whose tuples of start offsets differ have different keys.
\<close>

theorem chunk_key_injective:
  "(chunk_metadata n sl c d = Inr (k, shp) \<longrightarrow> chunk_name n sl = Inr k)
   \<and> (chunk_name n (Seq xs) = Inr k1 \<and> chunk_name n (Seq ys) = Inr k2
       \<and> list_all (\<lambda>i. start_of i < 100000) xs \<and> list_all (\<lambda>i. start_of i < 100000) ys
       \<and> map start_of xs \<noteq> map start_of ys \<longrightarrow> k1 \<noteq> k2)"
proof (intro conjI impI)
  assume "chunk_metadata n sl c d = Inr (k, shp)"
  then show "chunk_name n sl = Inr k" by (rule chunk_metadata_key)
next
  assume a: "chunk_name n (Seq xs) = Inr k1 \<and> chunk_name n (Seq ys) = Inr k2
       \<and> list_all (\<lambda>i. start_of i < 100000) xs \<and> list_all (\<lambda>i. start_of i < 100000) ys
       \<and> map start_of xs \<noteq> map start_of ys"
  then have x: "xs \<noteq> []" "k1 = n @ ''/'' @ idxstr xs" and y: "ys \<noteq> []" "k2 = n @ ''/'' @ idxstr ys"
    using chunk_name_Inr by blast+
  show "k1 \<noteq> k2"
  proof
    assume "k1 = k2"
    with x y have "idxstr xs = idxstr ys" by simp
    with x(1) y(1) have "map start_of xs = map start_of ys" by (rule idxstr_inj)
    with a show False by simp
  qed
qed

theorem chunk_key_injective_witness:
  "chunk_metadata ''x'' (Seq [Range (PySlice (Some 3) (Some 5) None)]) None (Some (DType IntKind 8))
     = Inr (''x/00003'', [2])
   \<and> chunk_name ''x'' (Seq [Range (PySlice (Some 3) (Some 5) None)]) = Inr ''x/00003''
   \<and> chunk_name ''x'' (Seq [Range (PySlice (Some 4) (Some 6) None)]) = Inr ''x/00004''
   \<and> ''x/00003'' \<noteq> ''x/00004''"
  using meta_x_3 key_x_3 key_x_4
    chunk_key_injective [of "''x''" "Seq [Range (PySlice (Some 3) (Some 5) None)]" None "Some (DType IntKind 8)"
      "''x/00003''" "[2]" "[Range (PySlice (Some 3) (Some 5) None)]" "''x/00003''"
      "[Range (PySlice (Some 4) (Some 6) None)]" "''x/00004''"]
  by (simp add: start_of_def)

section \<open>Writing a chunk and reading it back\<close>

lemma npy_put_effect:
  assumes k: "chunk_name n sl = Inr key"
    and ok: "fst (npy_put st n sl chunk fs) = Inr ()"
  shows "files (snd (npy_put st n sl chunk fs)) = (files fs)(npy_filename st key \<mapsto> chunk)"
    and "dirs (snd (npy_put st n sl chunk fs))
           = (if fst (os_path_split (npy_filename st key)) \<in> dirs fs then dirs fs
              else dirs fs \<union> set (ancestors (fst (os_path_split (npy_filename st key)))))"
    and "fs_log (snd (npy_put st n sl chunk fs))
           = fs_log fs @ Isdir (fst (os_path_split (npy_filename st key)))
               # (if fst (os_path_split (npy_filename st key)) \<in> dirs fs then []
                  else [Makedirs (fst (os_path_split (npy_filename st key)))])
               @ [Save (npy_filename st key)]"
    and "fst (os_path_split (npy_filename st key)) \<in> dirs (snd (npy_put st n sl chunk fs))"
    and "npy_filename st key \<notin> dirs (snd (npy_put st n sl chunk fs))"
  using ok
  by (auto simp: npy_put_def k os_path_isdir_def os_makedirs_def np_save_def Let_def
      split: if_splits)

lemma npy_get_after_put:
  assumes "fst (npy_put st n sl chunk fs) = Inr ()"
  shows "fst (npy_get st n sl dt (snd (npy_put st n sl chunk fs))) = Inr chunk"
proof -
  obtain key where k: "chunk_name n sl = Inr key"
    using assms by (cases "chunk_name n sl") (simp_all add: npy_put_def)
  have f: "files (snd (npy_put st n sl chunk fs)) (npy_filename st key) = Some chunk"
    using npy_put_effect(1) [OF k assms] by simp
  have d: "npy_filename st key \<notin> dirs (snd (npy_put st n sl chunk fs))"
    using npy_put_effect(5) [OF k assms] .
  show ?thesis
    by (simp add: npy_get_def k np_load_def Let_def f d)
qed

lemma rados_get_after_put:
  assumes wf: "wf_array chunk"
    and ok: "fst (rados_put rs n sl chunk c) = Inr ()"
  shows "fst (rados_get rs n sl (dtype chunk) (snd (rados_put rs n sl chunk c))) = Inr chunk"
proof -
  obtain key shp where m: "chunk_metadata n sl (Some chunk) None = Inr (key, shp)"
    using ok by (cases "chunk_metadata n sl (Some chunk) None")
      (auto simp: rados_put_def chunk_name_of_chunk_def)
  then have k: "chunk_name n sl = Inr key" and s: "shp = shape chunk" and o: "\<not> hasobject (dtype chunk)"
    by (auto simp: chunk_metadata_def Let_def split: sum.splits slices.splits if_splits)
  have m2: "chunk_metadata n sl None (Some (dtype chunk)) = Inr (key, shape chunk)"
    using m k s o
    by (auto simp: chunk_metadata_def Let_def split: sum.splits slices.splits if_splits)
  from ok m obtain objs where io: "io_fault c = None" and p: "pools c (ioctx rs) = Some objs"
    by (auto simp: rados_put_def chunk_name_of_chunk_def translated_def ioctx_write_full_def
        standard_errors_def Let_def split: option.splits)
  have c': "snd (rados_put rs n sl chunk c)
      = c\<lparr>rados_log := rados_log c @ [WriteFull key (data chunk)],
           pools := (pools c)(ioctx rs \<mapsto> objs(key \<mapsto> data chunk))\<rparr>"
    by (simp add: rados_put_def chunk_name_of_chunk_def m translated_def ioctx_write_full_def
        standard_errors_def Let_def io p tobytes_def)
  have len: "int (length (data chunk)) = np_prod (shape chunk) * int (itemsize (dtype chunk))"
    and nonneg: "\<not> list_ex (\<lambda>d. d < 0) (shape chunk)"
    using wf by (auto simp: wf_array_def list_all_iff list_ex_iff)
  have take: "take (nat (np_prod (shape chunk) * int (itemsize (dtype chunk)))) (data chunk) = data chunk"
    using len by simp
  have nn: "\<not> np_prod (shape chunk) * int (itemsize (dtype chunk)) < 0"
    using len by (metis of_nat_0_le_iff not_less)
  show ?thesis
    using nn nonneg
    by (simp add: rados_get_def m2 c' translated_def ioctx_read_def standard_errors_def Let_def io
        np_ndarray_def take len [symmetric])
qed

lemma ancestors_self: "p \<in> set (ancestors p)"
  by (subst ancestors.simps) (simp add: Let_def)

lemma ancestors_length: "q \<in> set (ancestors p) \<Longrightarrow> length q \<le> length p"
proof (induction p rule: ancestors.induct)
  case (1 p)
  let ?h = "fst (os_path_split p)"
  show ?case
  proof (cases "?h = [] \<or> length p \<le> length ?h")
    case True
    with "1.prems" show ?thesis by (subst (asm) ancestors.simps) (simp add: Let_def)
  next
    case False
    with "1.prems" have "q = p \<or> q \<in> set (ancestors ?h)"
      by (subst (asm) ancestors.simps) (simp add: Let_def)
    then show ?thesis
    proof
      assume "q = p" then show ?thesis by simp
    next
      assume "q \<in> set (ancestors ?h)"
      with "1.IH" [OF refl False] have "length q \<le> length ?h" by simp
      with False show ?thesis by simp
    qed
  qed
qed

lemma rstrip_slash_length: "length (rstrip_slash s) \<le> length s"
  by (simp add: rstrip_slash_def length_dropWhile_le [of _ "rev s", simplified])

lemma split_npy_shorter: "length (fst (os_path_split (s @ ''.npy''))) < length (s @ ''.npy'')"
proof -
  let ?p = "s @ ''.npy''"
  let ?tail = "rev (takeWhile (\<lambda>c. c \<noteq> CHR ''/'') (rev ?p))"
  have t: "0 < length ?tail" by simp
  have t2: "length ?tail \<le> length ?p"
    using length_takeWhile_le [of "\<lambda>c. c \<noteq> CHR ''/''" "rev ?p"] by simp
  have "length (fst (os_path_split ?p)) \<le> length (take (length ?p - length ?tail) ?p)"
    using rstrip_slash_length [of "take (length ?p - length ?tail) ?p"]
    by (simp add: os_path_split_def Let_def del: length_take)
  also have "\<dots> \<le> length ?p - length ?tail" by simp
  also have "\<dots> < length ?p" using t t2 by linarith
  finally show ?thesis .
qed

lemma npy_filename_not_ancestor:
  "npy_filename st key \<notin> set (ancestors (fst (os_path_split (npy_filename st key))))"
proof
  assume "npy_filename st key \<in> set (ancestors (fst (os_path_split (npy_filename st key))))"
  then have "length (npy_filename st key) \<le> length (fst (os_path_split (npy_filename st key)))"
    by (rule ancestors_length)
  moreover have "length (fst (os_path_split (npy_filename st key))) < length (npy_filename st key)"
    unfolding npy_filename_def by (rule split_npy_shorter)
  ultimately show False by simp
qed

lemma npy_put_succeeds:
  assumes k: "chunk_name n sl = Inr key"
    and f: "npy_filename st key \<notin> dirs fs"
    and d: "fst (os_path_split (npy_filename st key)) \<in> dirs fs
        \<or> \<not> list_ex (\<lambda>q. files fs q \<noteq> None) (ancestors (fst (os_path_split (npy_filename st key))))"
  shows "fst (npy_put st n sl chunk fs) = Inr ()"
  using f d npy_filename_not_ancestor [of st key]
    ancestors_self [of "fst (os_path_split (npy_filename st key))"]
  by (auto simp: npy_put_def k os_path_isdir_def os_makedirs_def np_save_def Let_def)

lemma rados_put_succeeds:
  assumes "chunk_name n (Seq xs) = Inr key" and "shape chunk = chunk_shape xs"
    and "\<not> hasobject (dtype chunk)" and "io_fault c = None" and "pools c (ioctx rs) = Some objs"
  shows "fst (rados_put rs n (Seq xs) chunk c) = Inr ()"
  using assms
  by (simp add: rados_put_def chunk_name_of_chunk_def chunk_metadata_def translated_def
      ioctx_write_full_def standard_errors_def Let_def)

text \<open>
  C4: in both stores, a \<open>put\<close> that succeeds followed by a \<open>get\<close> with the same
  name and slices and the dtype of the payload returns the payload: the same shape,
  dtype and bytes. For the store of RADOS objects the payload has to be a well-formed
  array, whose bytes are as many as its shape and dtype say. The \<open>put\<close> does succeed
  for a slice specification that the key derivation accepts: in the store of NPY
  files when the file is no directory and its directory exists or can be made, in the
  store of RADOS objects when the payload has the shape of the slices and no object
  dtype and the pool answers.
\<close>

theorem put_get_round_trip:
  "(fst (npy_put st n sl chunk fs) = Inr () \<longrightarrow>
      fst (npy_get st n sl (Some (dtype chunk)) (snd (npy_put st n sl chunk fs))) = Inr chunk)
   \<and> (wf_array chunk \<and> fst (rados_put rs n sl chunk c) = Inr () \<longrightarrow>
      fst (rados_get rs n sl (dtype chunk) (snd (rados_put rs n sl chunk c))) = Inr chunk)
   \<and> (chunk_name n sl = Inr key \<and> npy_filename st key \<notin> dirs fs
       \<and> (fst (os_path_split (npy_filename st key)) \<in> dirs fs
          \<or> \<not> list_ex (\<lambda>q. files fs q \<noteq> None) (ancestors (fst (os_path_split (npy_filename st key)))))
      \<longrightarrow> fst (npy_put st n sl chunk fs) = Inr ())
   \<and> (sl = Seq xs \<and> chunk_name n sl = Inr key \<and> shape chunk = chunk_shape xs
       \<and> \<not> hasobject (dtype chunk) \<and> io_fault c = None \<and> pools c (ioctx rs) \<noteq> None
      \<longrightarrow> fst (rados_put rs n sl chunk c) = Inr ())"
proof (intro conjI impI)
  assume "fst (npy_put st n sl chunk fs) = Inr ()"
  then show "fst (npy_get st n sl (Some (dtype chunk)) (snd (npy_put st n sl chunk fs))) = Inr chunk"
    by (rule npy_get_after_put)
next
  assume "wf_array chunk \<and> fst (rados_put rs n sl chunk c) = Inr ()"
  then show "fst (rados_get rs n sl (dtype chunk) (snd (rados_put rs n sl chunk c))) = Inr chunk"
    using rados_get_after_put by blast
next
  assume "chunk_name n sl = Inr key \<and> npy_filename st key \<notin> dirs fs
       \<and> (fst (os_path_split (npy_filename st key)) \<in> dirs fs
          \<or> \<not> list_ex (\<lambda>q. files fs q \<noteq> None) (ancestors (fst (os_path_split (npy_filename st key)))))"
  then show "fst (npy_put st n sl chunk fs) = Inr ()"
    using npy_put_succeeds by blast
next
  assume a: "sl = Seq xs \<and> chunk_name n sl = Inr key \<and> shape chunk = chunk_shape xs
       \<and> \<not> hasobject (dtype chunk) \<and> io_fault c = None \<and> pools c (ioctx rs) \<noteq> None"
  then obtain objs where "pools c (ioctx rs) = Some objs" by auto
  with a show "fst (rados_put rs n sl chunk c) = Inr ()"
    using rados_put_succeeds by blast
qed

theorem put_get_round_trip_witness:
  "fst (npy_get \<lparr>path = ''/data''\<rparr> ''x'' (Seq [Range (PySlice (Some 3) (Some 5) None)])
        (Some (DType IntKind 8))
        (snd (npy_put \<lparr>path = ''/data''\<rparr> ''x'' (Seq [Range (PySlice (Some 3) (Some 5) None)])
           two_ints fs_data))) = Inr two_ints
   \<and> fst (rados_get store_on_pool ''x'' (Seq [Range (PySlice (Some 3) (Some 5) None)])
        (DType IntKind 8)
        (snd (rados_put store_on_pool ''x'' (Seq [Range (PySlice (Some 3) (Some 5) None)])
           two_ints cluster_empty_pool))) = Inr two_ints"
proof -
  note rt = put_get_round_trip [where st = "\<lparr>path = ''/data''\<rparr>" and n = "''x''"
      and sl = "Seq [Range (PySlice (Some 3) (Some 5) None)]" and chunk = two_ints
      and fs = fs_data and rs = store_on_pool and c = cluster_empty_pool
      and key = "''x/00003''" and xs = "[Range (PySlice (Some 3) (Some 5) None)]"]
  have wf: "wf_array two_ints"
    by (simp add: wf_array_def two_ints_def np_prod_def)
  have f: "npy_filename \<lparr>path = ''/data''\<rparr> ''x/00003'' = ''/data/x/00003.npy''"
    by (simp add: npy_filename_def os_path_join_def)
  have p1: "fst (npy_put \<lparr>path = ''/data''\<rparr> ''x'' (Seq [Range (PySlice (Some 3) (Some 5) None)])
      two_ints fs_data) = Inr ()"
    using rt key_x_3
    by (simp add: f split_data_x_3 ancestors_data_x fs_data_def)
  have sh: "chunk_shape [Range (PySlice (Some 3) (Some 5) None)] = [2]"
    by (simp add: chunk_shape_def start_of_def stop_of_def)
  have p2: "fst (rados_put store_on_pool ''x'' (Seq [Range (PySlice (Some 3) (Some 5) None)])
      two_ints cluster_empty_pool) = Inr ()"
    using rt key_x_3
    by (simp add: sh two_ints_def hasobject_def cluster_empty_pool_def store_on_pool_def)
  have dt: "dtype two_ints = DType IntKind 8" by (simp add: two_ints_def)
  show ?thesis using rt wf p1 p2 by (simp add: dt)
qed

section \<open>Files of the store of NPY files\<close>





end
